theory Spec2Isabelle
  imports Complex_Main
begin

section \<open>The loan calculator of \<open>emi.py\<close>\<close>

text \<open>
  The development embeds the two functions of \<open>emi.py\<close> that compute a loan:
  \<open>calculate_emi\<close> (the fixed monthly payment) and \<open>generate_schedule\<close> (the
  month-by-month amortization table).

  Numbers. The source computes with Python floats. The embedding computes with the
  real numbers: every operation of the source (\<open>+\<close>, \<open>-\<close>, \<open>*\<close>, \<open>/\<close>,
  \<open>math.pow\<close> with an integer exponent, comparison, \<open>round(x, 2)\<close>) is read as
  the exact operation it approximates. The theorems below are therefore statements
  about the algorithm in exact arithmetic; the binary rounding of each float operation
  is not modelled.
\<close>

subsection \<open>Errors and rounding\<close>

datatype py_error = ZeroDivisionError

text \<open>
  \<open>round(x, 2)\<close>: the nearest multiple of one hundredth, a tie going to the even
  multiple (Python rounds half to even).
\<close>

definition py_round2 :: "real \<Rightarrow> real" where
  "py_round2 x =
     (let y = x * 100; f = \<lfloor>y\<rfloor>; d = y - of_int f
      in (if d < 1 / 2 then of_int f
          else if 1 / 2 < d then of_int (f + 1)
          else if even f then of_int f else of_int (f + 1)) / 100)"

subsection \<open>Dates\<close>

text \<open>A \<open>datetime.date\<close>: year, month (1 to 12), day of the month.\<close>

record date =
  year :: int
  month :: int
  day :: int

text \<open>
  \<open>pd.date_range(start=start_date, periods=total_months, freq="MS")\<close> is a function
  of the pandas library, not of this repository. Its documented behaviour is modelled
  here: with the frequency \<open>MS\<close> (month start) it returns \<open>periods\<close> consecutive
  first-of-month dates, the first one being the earliest month start that is not
  before \<open>start\<close>. Whether the call raises (a timestamp outside the range pandas can
  represent) is decided inside the library; it is the parameter \<open>raises\<close>, and
  \<open>None\<close> stands for the exception.
\<close>

definition month_start :: "date \<Rightarrow> nat \<Rightarrow> date" where
  "month_start start k =
     (let m = year start * 12 + (month start - 1)
              + (if day start = 1 then 0 else 1) + int k
      in \<lparr>year = m div 12, month = m mod 12 + 1, day = 1\<rparr>)"

definition pd_date_range_MS :: "(date \<Rightarrow> nat \<Rightarrow> bool) \<Rightarrow> date \<Rightarrow> nat \<Rightarrow> date list option" where
  "pd_date_range_MS raises start periods =
     (if raises start periods then None
      else Some (map (month_start start) [0..<periods]))"

subsection \<open>The payment\<close>

text \<open>
  \<open>calculate_emi\<close>. The division by \<open>math.pow(1 + monthly_rate, total_months) - 1\<close>
  raises \<open>ZeroDivisionError\<close> when that divisor is zero; the two other divisions are
  by non-zero numbers.
\<close>

definition calculate_emi :: "real \<Rightarrow> real \<Rightarrow> int \<Rightarrow> py_error + real" where
  "calculate_emi princ annual_rate total_months =
     (if total_months \<le> 0 then Inr 0
      else
        let monthly_rate = annual_rate / 12 / 100 in
        if monthly_rate = 0 then Inr (princ / of_int total_months)
        else
          let g = (1 + monthly_rate) ^ nat total_months in
          if g - 1 = 0 then Inl ZeroDivisionError
          else Inr (princ * monthly_rate * g / (g - 1)))"

subsection \<open>The schedule\<close>

text \<open>One row of the table; the fields are the columns of the data frame, in its order.\<close>

record row =
  Month_No :: int
  Date :: "date option"
  Opening_Balance :: real
  EMI :: real
  Principal_Component :: real
  Interest_Component :: real
  Closing_Balance :: real

text \<open>
  The body of the loop up to the closing balance: from the running balance it gives
  \<open>(emi_actual, principal_component, interest_component, closing_balance)\<close>.
\<close>

definition period_amounts :: "real \<Rightarrow> real \<Rightarrow> nat \<Rightarrow> real \<Rightarrow> real \<Rightarrow> real \<times> real \<times> real \<times> real" where
  "period_amounts princ monthly_rate total_months emi balance =
     (let (interest_component, principal_component) =
            (if monthly_rate > 0
             then (balance * monthly_rate, emi - balance * monthly_rate)
             else (0, princ / real total_months));
          (principal_component, emi_actual) =
            (if principal_component > balance
             then (balance, balance + interest_component)
             else (principal_component, emi));
          closing_balance = balance - principal_component
      in (emi_actual, principal_component, interest_component, closing_balance))"

text \<open>
  The loop \<open>for i in range(total_months)\<close> with its \<open>break\<close>. The state is the
  running balance and the rows collected so far; both are returned.
\<close>

function schedule_loop ::
  "real \<Rightarrow> real \<Rightarrow> nat \<Rightarrow> date option list \<Rightarrow> real \<Rightarrow> nat \<Rightarrow> real \<Rightarrow> row list \<Rightarrow> row list \<times> real"
where
  "schedule_loop princ monthly_rate total_months dates emi i balance rows =
     (if i < total_months then
        (case period_amounts princ monthly_rate total_months emi balance of
           (emi_actual, principal_component, interest_component, closing_balance) \<Rightarrow>
             let rows' = rows @
                   [\<lparr>Month_No = int i + 1,
                     Date = dates ! i,
                     Opening_Balance = py_round2 balance,
                     EMI = py_round2 emi_actual,
                     Principal_Component = py_round2 principal_component,
                     Interest_Component = py_round2 interest_component,
                     Closing_Balance = py_round2 closing_balance\<rparr>]
             in if closing_balance \<le> 0 then (rows', closing_balance)
                else schedule_loop princ monthly_rate total_months dates emi
                       (Suc i) closing_balance rows')
      else (rows, balance))"
  by pat_completeness auto
termination
  by (relation "measure (\<lambda>(princ, monthly_rate, total_months, dates, emi, i, balance, rows).
        total_months - i)") auto

declare schedule_loop.simps [simp del]

text \<open>
  The list \<open>dates\<close>: the month starts as \<open>date\<close>s, or \<open>[None] * total_months\<close>
  when the library call raised. Either way it has \<open>total_months\<close> entries, so
  \<open>dates[i]\<close> is in range for every \<open>i\<close> of the loop.
\<close>

definition schedule_dates :: "(date \<Rightarrow> nat \<Rightarrow> bool) \<Rightarrow> date \<Rightarrow> nat \<Rightarrow> date option list" where
  "schedule_dates raises start_date total_months =
     (case pd_date_range_MS raises start_date total_months of
        Some ds \<Rightarrow> map Some ds
      | None \<Rightarrow> replicate total_months None)"

text \<open>
  The state of the loop when it ends, for inputs that pass the guard of
  \<open>generate_schedule\<close>.
\<close>

definition run_schedule ::
  "(date \<Rightarrow> nat \<Rightarrow> bool) \<Rightarrow> real \<Rightarrow> real \<Rightarrow> int \<Rightarrow> date \<Rightarrow> real \<Rightarrow> row list \<times> real" where
  "run_schedule raises princ annual_rate total_months start_date emi =
     (let monthly_rate = annual_rate / 12 / 100;
          balance = princ;
          dates = schedule_dates raises start_date (nat total_months)
      in schedule_loop princ monthly_rate (nat total_months) dates emi 0 balance [])"

text \<open>\<open>generate_schedule\<close>; the empty list is the empty data frame.\<close>

definition generate_schedule ::
  "(date \<Rightarrow> nat \<Rightarrow> bool) \<Rightarrow> real \<Rightarrow> real \<Rightarrow> int \<Rightarrow> date \<Rightarrow> real \<Rightarrow> row list" where
  "generate_schedule raises princ annual_rate total_months start_date emi =
     (if total_months \<le> 0 \<or> princ \<le> 0 then []
      else fst (run_schedule raises princ annual_rate total_months start_date emi))"

subsection \<open>Auxiliary definitions\<close>

text \<open>
  Two readings of the loop body, used to state facts about the loop: the closing balance
  of a period, and the row the period appends.
\<close>

definition period_closing :: "real \<Rightarrow> real \<Rightarrow> nat \<Rightarrow> real \<Rightarrow> real \<Rightarrow> real" where
  "period_closing princ monthly_rate total_months emi balance =
     (case period_amounts princ monthly_rate total_months emi balance of
        (emi_actual, principal_component, interest_component, closing_balance) \<Rightarrow> closing_balance)"

definition period_row :: "real \<Rightarrow> real \<Rightarrow> nat \<Rightarrow> date option list \<Rightarrow> real \<Rightarrow> nat \<Rightarrow> real \<Rightarrow> row" where
  "period_row princ monthly_rate total_months dates emi i balance =
     (case period_amounts princ monthly_rate total_months emi balance of
        (emi_actual, principal_component, interest_component, closing_balance) \<Rightarrow>
          \<lparr>Month_No = int i + 1,
           Date = dates ! i,
           Opening_Balance = py_round2 balance,
           EMI = py_round2 emi_actual,
           Principal_Component = py_round2 principal_component,
           Interest_Component = py_round2 interest_component,
           Closing_Balance = py_round2 closing_balance\<rparr>)"

text \<open>
  The rows the loop appends, and the balance it ends with, when it is entered at index
  \<open>i\<close> with no rows collected.
\<close>

definition rows_from :: "real \<Rightarrow> real \<Rightarrow> nat \<Rightarrow> date option list \<Rightarrow> real \<Rightarrow> nat \<Rightarrow> real \<Rightarrow> row list" where
  "rows_from P r n ds e i b = fst (schedule_loop P r n ds e i b [])"

definition balance_from :: "real \<Rightarrow> real \<Rightarrow> nat \<Rightarrow> date option list \<Rightarrow> real \<Rightarrow> nat \<Rightarrow> real \<Rightarrow> real" where
  "balance_from P r n ds e i b = snd (schedule_loop P r n ds e i b [])"

text \<open>
  The running balance after \<open>k\<close> periods of the loop body, starting from the principal:
  the balance the loop holds after its \<open>k\<close>-th iteration when it gets that far.
\<close>

definition balance_after :: "real \<Rightarrow> real \<Rightarrow> nat \<Rightarrow> real \<Rightarrow> nat \<Rightarrow> real" where
  "balance_after princ monthly_rate total_months emi k =
     (period_closing princ monthly_rate total_months emi ^^ k) princ"

section \<open>Facts about rounding and the loop\<close>

lemma py_round2_cases:
  obtains k :: int where "py_round2 x = of_int k / 100" "\<bar>of_int k - x * 100\<bar> \<le> 1 / 2"
proof -
  define y where "y = x * 100"
  define f where "f = \<lfloor>y\<rfloor>"
  have f: "of_int f \<le> y" "y < of_int f + 1"
    unfolding f_def by linarith+
  show ?thesis
  proof (cases "y - of_int f < 1 / 2")
    case True
    then have "py_round2 x = of_int f / 100"
      by (simp add: py_round2_def Let_def y_def f_def)
    moreover have "\<bar>of_int f - x * 100\<bar> \<le> 1 / 2"
      using True f by (simp add: y_def abs_le_iff)
    ultimately show ?thesis using that by blast
  next
    case False
    show ?thesis
    proof (cases "1 / 2 < y - of_int f")
      case True
      then have "py_round2 x = of_int (f + 1) / 100"
        using False by (simp add: py_round2_def Let_def y_def f_def)
      moreover have "\<bar>of_int (f + 1) - x * 100\<bar> \<le> 1 / 2"
        using True f by (simp add: y_def abs_le_iff)
      ultimately show ?thesis using that by blast
    next
      case F2: False
      then have eq: "y - of_int f = 1 / 2" using False by linarith
      have "py_round2 x = of_int (if even f then f else f + 1) / 100"
        using False F2 by (simp add: py_round2_def Let_def y_def f_def)
      moreover have "\<bar>of_int (if even f then f else f + 1) - x * 100\<bar> \<le> 1 / 2"
        using eq by (simp add: y_def abs_le_iff)
      ultimately show ?thesis using that by blast
    qed
  qed
qed

lemma py_round2_err: "\<bar>py_round2 x - x\<bar> \<le> 1 / 200"
proof -
  obtain k :: int where k: "py_round2 x = of_int k / 100" "\<bar>of_int k - x * 100\<bar> \<le> 1 / 2"
    by (rule py_round2_cases)
  show ?thesis using k by linarith
qed

lemma py_round2_nonneg: "0 \<le> x \<Longrightarrow> 0 \<le> py_round2 x"
proof -
  assume x: "0 \<le> x"
  obtain k :: int where k: "py_round2 x = of_int k / 100" "\<bar>of_int k - x * 100\<bar> \<le> 1 / 2"
    by (rule py_round2_cases)
  have "x * 100 - of_int k \<le> 1 / 2" using k(2) by linarith
  then have "(-1::real) < of_int k" using x by linarith
  then have "0 \<le> k" by linarith
  then show ?thesis by (simp add: k(1))
qed

lemma py_round2_zero: "py_round2 0 = 0"
  by (simp add: py_round2_def)

lemma schedule_loop_done:
  "\<not> i < n \<Longrightarrow> schedule_loop P r n ds e i b rows = (rows, b)"
  by (simp add: schedule_loop.simps)

lemma schedule_loop_step:
  "i < n \<Longrightarrow> schedule_loop P r n ds e i b rows =
     (if period_closing P r n e b \<le> 0
      then (rows @ [period_row P r n ds e i b], period_closing P r n e b)
      else schedule_loop P r n ds e (Suc i) (period_closing P r n e b)
             (rows @ [period_row P r n ds e i b]))"
  by (subst schedule_loop.simps)
     (simp add: period_closing_def period_row_def Let_def split: prod.splits)

lemma schedule_loop_append:
  "schedule_loop P r n ds e i b rows =
     (rows @ fst (schedule_loop P r n ds e i b []), snd (schedule_loop P r n ds e i b []))"
proof (induction "n - i" arbitrary: i b rows)
  case 0
  then show ?case by (simp add: schedule_loop_done)
next
  case (Suc k)
  then have lt: "i < n" and k: "k = n - Suc i" by simp_all
  note ih = Suc.hyps(1) [OF k]
  show ?case
  proof (cases "period_closing P r n e b \<le> 0")
    case True
    then show ?thesis using lt by (simp add: schedule_loop_step)
  next
    case False
    then show ?thesis
      using lt ih [of "period_closing P r n e b" "rows @ [period_row P r n ds e i b]"]
        ih [of "period_closing P r n e b" "[period_row P r n ds e i b]"]
      by (simp add: schedule_loop_step)
  qed
qed

lemma rows_from_done: "\<not> i < n \<Longrightarrow> rows_from P r n ds e i b = []"
  by (simp add: rows_from_def schedule_loop_done)

lemma rows_from_stop:
  "i < n \<Longrightarrow> period_closing P r n e b \<le> 0 \<Longrightarrow>
   rows_from P r n ds e i b = [period_row P r n ds e i b]"
  by (simp add: rows_from_def schedule_loop_step)

lemma rows_from_next:
  "i < n \<Longrightarrow> \<not> period_closing P r n e b \<le> 0 \<Longrightarrow>
   rows_from P r n ds e i b =
     period_row P r n ds e i b # rows_from P r n ds e (Suc i) (period_closing P r n e b)"
  using schedule_loop_append [of P r n ds e "Suc i" "period_closing P r n e b" "[period_row P r n ds e i b]"]
  by (simp add: rows_from_def schedule_loop_step)

lemma balance_from_done: "\<not> i < n \<Longrightarrow> balance_from P r n ds e i b = b"
  by (simp add: balance_from_def schedule_loop_done)

lemma balance_from_stop:
  "i < n \<Longrightarrow> period_closing P r n e b \<le> 0 \<Longrightarrow>
   balance_from P r n ds e i b = period_closing P r n e b"
  by (simp add: balance_from_def schedule_loop_step)

lemma balance_from_next:
  "i < n \<Longrightarrow> \<not> period_closing P r n e b \<le> 0 \<Longrightarrow>
   balance_from P r n ds e i b = balance_from P r n ds e (Suc i) (period_closing P r n e b)"
  using schedule_loop_append [of P r n ds e "Suc i" "period_closing P r n e b" "[period_row P r n ds e i b]"]
  by (simp add: balance_from_def schedule_loop_step)

lemma period_closing_nonneg: "0 \<le> period_closing P r n e b"
  by (simp add: period_closing_def period_amounts_def Let_def split: prod.splits if_splits)

lemma Month_No_period_row [simp]: "Month_No (period_row P r n ds e i b) = int i + 1"
  by (simp add: period_row_def split: prod.splits)

lemma Date_period_row [simp]: "Date (period_row P r n ds e i b) = ds ! i"
  by (simp add: period_row_def split: prod.splits)

lemma Opening_period_row [simp]: "Opening_Balance (period_row P r n ds e i b) = py_round2 b"
  by (simp add: period_row_def split: prod.splits)

lemma Closing_period_row [simp]:
  "Closing_Balance (period_row P r n ds e i b) = py_round2 (period_closing P r n e b)"
  by (simp add: period_row_def period_closing_def split: prod.splits)

lemma EMI_period_row:
  "\<not> period_closing P r n e b \<le> 0 \<Longrightarrow> EMI (period_row P r n ds e i b) = py_round2 e"
  by (simp add: period_row_def period_closing_def period_amounts_def Let_def
      split: prod.splits if_splits)

lemma rows_from_length: "length (rows_from P r n ds e i b) \<le> n - i"
proof (induction "n - i" arbitrary: i b)
  case 0
  then show ?case by (simp add: rows_from_done)
next
  case (Suc m)
  then have lt: "i < n" and m: "m = n - Suc i" by simp_all
  show ?case
  proof (cases "period_closing P r n e b \<le> 0")
    case True
    then show ?thesis using lt by (simp add: rows_from_stop)
  next
    case False
    then show ?thesis
      using lt Suc.hyps(1) [OF m, of "period_closing P r n e b"]
      by (simp add: rows_from_next)
  qed
qed

lemma rows_from_nonempty: "i < n \<Longrightarrow> rows_from P r n ds e i b \<noteq> []"
  by (cases "period_closing P r n e b \<le> 0") (simp_all add: rows_from_stop rows_from_next)

lemma rows_from_short:
  "i + length (rows_from P r n ds e i b) < n \<Longrightarrow> balance_from P r n ds e i b \<le> 0"
proof (induction "n - i" arbitrary: i b)
  case 0
  then show ?case by simp
next
  case (Suc m)
  from Suc.hyps(2) have lt: "i < n" and m: "m = n - Suc i" by simp_all
  show ?case
  proof (cases "period_closing P r n e b \<le> 0")
    case True
    then show ?thesis using lt by (simp add: balance_from_stop)
  next
    case False
    with lt have eq: "rows_from P r n ds e i b =
        period_row P r n ds e i b # rows_from P r n ds e (Suc i) (period_closing P r n e b)"
      by (rule rows_from_next)
    have "Suc i + length (rows_from P r n ds e (Suc i) (period_closing P r n e b)) < n"
      using Suc.prems by (simp add: eq)
    then have "balance_from P r n ds e (Suc i) (period_closing P r n e b) \<le> 0"
      by (rule Suc.hyps(1) [OF m])
    then show ?thesis using lt False by (simp add: balance_from_next)
  qed
qed

lemma rows_from_month:
  "k < length (rows_from P r n ds e i b) \<Longrightarrow>
   Month_No (rows_from P r n ds e i b ! k) = int i + int k + 1"
proof (induction "n - i" arbitrary: i b k)
  case 0
  then show ?case by (simp add: rows_from_done)
next
  case (Suc m)
  from Suc.hyps(2) have lt: "i < n" and m: "m = n - Suc i" by simp_all
  show ?case
  proof (cases "period_closing P r n e b \<le> 0")
    case True
    then show ?thesis using lt Suc.prems by (simp add: rows_from_stop)
  next
    case False
    show ?thesis
    proof (cases k)
      case 0
      then show ?thesis using lt False by (simp add: rows_from_next)
    next
      case (Suc j)
      then show ?thesis
        using lt False Suc.prems Suc.hyps(1) [OF m, of j "period_closing P r n e b"]
        by (simp add: rows_from_next)
    qed
  qed
qed

lemma rows_from_emi:
  "Suc k < length (rows_from P r n ds e i b) \<Longrightarrow>
   EMI (rows_from P r n ds e i b ! k) = py_round2 e"
proof (induction "n - i" arbitrary: i b k)
  case 0
  then show ?case by (simp add: rows_from_done)
next
  case (Suc m)
  from Suc.hyps(2) have lt: "i < n" and m: "m = n - Suc i" by simp_all
  show ?case
  proof (cases "period_closing P r n e b \<le> 0")
    case True
    then show ?thesis using lt Suc.prems by (simp add: rows_from_stop)
  next
    case False
    show ?thesis
    proof (cases k)
      case 0
      then show ?thesis using lt False by (simp add: rows_from_next EMI_period_row)
    next
      case (Suc j)
      then show ?thesis
        using lt False Suc.prems Suc.hyps(1) [OF m, of j "period_closing P r n e b"]
        by (simp add: rows_from_next)
    qed
  qed
qed

lemmas schedule_eval =
  generate_schedule_def run_schedule_def schedule_dates_def pd_date_range_MS_def
  month_start_def schedule_loop_step schedule_loop_done period_closing_def period_row_def
  period_amounts_def py_round2_def Let_def upt_conv_Cons

lemma Principal_period_row_clamped:
  "Principal_Component (period_row P r n ds e i b) = py_round2 (b - period_closing P r n e b)"
  by (simp add: period_row_def period_closing_def period_amounts_def Let_def
      split: prod.splits if_splits)

lemma round2_diff_cent:
  "\<bar>py_round2 (b - p) - (py_round2 b - py_round2 p)\<bar> \<le> 1 / 100"
proof -
  obtain kc :: int where kc: "py_round2 (b - p) = of_int kc / 100" "\<bar>of_int kc - (b - p) * 100\<bar> \<le> 1 / 2"
    by (rule py_round2_cases)
  obtain kb :: int where kb: "py_round2 b = of_int kb / 100" "\<bar>of_int kb - b * 100\<bar> \<le> 1 / 2"
    by (rule py_round2_cases)
  obtain kp :: int where kp: "py_round2 p = of_int kp / 100" "\<bar>of_int kp - p * 100\<bar> \<le> 1 / 2"
    by (rule py_round2_cases)
  have c: "real_of_int kc - (b - p) * 100 \<le> 1 / 2" "(b - p) * 100 - real_of_int kc \<le> 1 / 2"
    using kc(2) by linarith+
  have b: "real_of_int kb - b * 100 \<le> 1 / 2" "b * 100 - real_of_int kb \<le> 1 / 2"
    using kb(2) by linarith+
  have p: "real_of_int kp - p * 100 \<le> 1 / 2" "p * 100 - real_of_int kp \<le> 1 / 2"
    using kp(2) by linarith+
  have "(b - p) * 100 = b * 100 - p * 100" by (simp add: algebra_simps)
  then have "\<bar>real_of_int kc - (real_of_int kb - real_of_int kp)\<bar> \<le> 3 / 2"
    using c b p by linarith
  then have "\<bar>real_of_int (kc - (kb - kp))\<bar> < 2" by simp
  then have "\<bar>kc - (kb - kp)\<bar> < 2" by linarith
  then have "\<bar>kc - (kb - kp)\<bar> \<le> 1" by linarith
  then have "\<bar>real_of_int kc - (real_of_int kb - real_of_int kp)\<bar> \<le> 1" by linarith
  then show ?thesis
    unfolding kc(1) kb(1) kp(1) by linarith
qed

lemma period_row_cent:
  "\<bar>Closing_Balance (period_row P r n ds e i b) -
     (Opening_Balance (period_row P r n ds e i b) - Principal_Component (period_row P r n ds e i b))\<bar>
   \<le> 1 / 100"
  using round2_diff_cent [of b "b - period_closing P r n e b"]
  by (simp add: Principal_period_row_clamped)

lemma rows_from_all:
  assumes step: "\<And>i b. Q b \<Longrightarrow> i < n \<Longrightarrow> R (period_row P r n ds e i b)"
    and keep: "\<And>b. Q b \<Longrightarrow> \<not> period_closing P r n e b \<le> 0 \<Longrightarrow> Q (period_closing P r n e b)"
  shows "Q b \<Longrightarrow> k < length (rows_from P r n ds e i b) \<Longrightarrow> R (rows_from P r n ds e i b ! k)"
proof (induction "n - i" arbitrary: i b k)
  case 0
  then show ?case by (simp add: rows_from_done)
next
  case (Suc m)
  from Suc.hyps(2) have lt: "i < n" and m: "m = n - Suc i" by simp_all
  have R0: "R (period_row P r n ds e i b)" using Suc.prems(1) lt by (rule step)
  show ?case
  proof (cases "period_closing P r n e b \<le> 0")
    case True
    then show ?thesis using lt Suc.prems R0 by (simp add: rows_from_stop)
  next
    case False
    have Q': "Q (period_closing P r n e b)" using Suc.prems(1) False by (rule keep)
    show ?thesis
    proof (cases k)
      case 0
      then show ?thesis using lt False R0 by (simp add: rows_from_next)
    next
      case (Suc j)
      then show ?thesis
        using lt False Suc.prems(2) Suc.hyps(1) [OF m Q', of j]
        by (simp add: rows_from_next)
    qed
  qed
qed

lemma rows_from_chain:
  "Suc k < length (rows_from P r n ds e i b) \<Longrightarrow>
   Opening_Balance (rows_from P r n ds e i b ! Suc k) =
   Closing_Balance (rows_from P r n ds e i b ! k)"
proof (induction "n - i" arbitrary: i b k)
  case 0
  then show ?case by (simp add: rows_from_done)
next
  case (Suc m)
  from Suc.hyps(2) have lt: "i < n" and m: "m = n - Suc i" by simp_all
  show ?case
  proof (cases "period_closing P r n e b \<le> 0")
    case True
    then show ?thesis using lt Suc.prems by (simp add: rows_from_stop)
  next
    case False
    with lt have eq: "rows_from P r n ds e i b =
        period_row P r n ds e i b # rows_from P r n ds e (Suc i) (period_closing P r n e b)"
      by (rule rows_from_next)
    show ?thesis
    proof (cases k)
      case 0
      have ne: "rows_from P r n ds e (Suc i) (period_closing P r n e b) \<noteq> []"
        using Suc.prems 0 by (auto simp: eq)
      then have lt2: "Suc i < n" using rows_from_done [of "Suc i" n] by blast
      have "Opening_Balance (hd (rows_from P r n ds e (Suc i) (period_closing P r n e b))) =
          py_round2 (period_closing P r n e b)"
        using lt2
        by (cases "period_closing P r n e (period_closing P r n e b) \<le> 0")
           (simp_all add: rows_from_stop rows_from_next)
      then show ?thesis using 0 ne by (simp add: eq hd_conv_nth)
    next
      case (Suc j)
      then show ?thesis
        using Suc.prems Suc.hyps(1) [OF m, of j "period_closing P r n e b"]
        by (simp add: eq)
    qed
  qed
qed

lemma generate_schedule_rows:
  "0 < total_months \<Longrightarrow> 0 < princ \<Longrightarrow>
   generate_schedule raises princ annual_rate total_months start_date emi =
     rows_from princ (annual_rate / 12 / 100) (nat total_months)
       (schedule_dates raises start_date (nat total_months)) emi 0 princ"
  by (simp add: generate_schedule_def run_schedule_def rows_from_def)

lemma run_schedule_balance:
  "snd (run_schedule raises princ annual_rate total_months start_date emi) =
     balance_from princ (annual_rate / 12 / 100) (nat total_months)
       (schedule_dates raises start_date (nat total_months)) emi 0 princ"
  by (simp add: run_schedule_def balance_from_def)

lemma rows_from_cent:
  "k < length (rows_from P r n ds e i b) \<Longrightarrow>
   \<bar>Closing_Balance (rows_from P r n ds e i b ! k) -
     (Opening_Balance (rows_from P r n ds e i b ! k) -
      Principal_Component (rows_from P r n ds e i b ! k))\<bar> \<le> 1 / 100"
proof -
  assume k: "k < length (rows_from P r n ds e i b)"
  show ?thesis
  proof (rule rows_from_all [where Q = "\<lambda>b. True" and b = b, OF _ _ TrueI k])
    show "\<And>i b. True \<Longrightarrow> i < n \<Longrightarrow>
        \<bar>Closing_Balance (period_row P r n ds e i b) -
          (Opening_Balance (period_row P r n ds e i b) -
           Principal_Component (period_row P r n ds e i b))\<bar> \<le> 1 / 100"
      by (rule period_row_cent)
  qed simp
qed

lemma generate_schedule_empty:
  "\<not> (0 < total_months \<and> 0 < princ) \<Longrightarrow>
   generate_schedule raises princ annual_rate total_months start_date emi = []"
  by (auto simp: generate_schedule_def)

lemma sched_100_0_3:
  "generate_schedule (\<lambda>d n. False) 100 0 3 \<lparr>year = 2024, month = 1, day = 1\<rparr> (100 / 3) =
     [\<lparr>Month_No = 1, Date = Some \<lparr>year = 2024, month = 1, day = 1\<rparr>,
       Opening_Balance = 100, EMI = 3333 / 100, Principal_Component = 3333 / 100,
       Interest_Component = 0, Closing_Balance = 6667 / 100\<rparr>,
      \<lparr>Month_No = 2, Date = Some \<lparr>year = 2024, month = 2, day = 1\<rparr>,
       Opening_Balance = 6667 / 100, EMI = 3333 / 100, Principal_Component = 3333 / 100,
       Interest_Component = 0, Closing_Balance = 3333 / 100\<rparr>,
      \<lparr>Month_No = 3, Date = Some \<lparr>year = 2024, month = 3, day = 1\<rparr>,
       Opening_Balance = 3333 / 100, EMI = 3333 / 100, Principal_Component = 3333 / 100,
       Interest_Component = 0, Closing_Balance = 0\<rparr>]"
  by (simp add: schedule_eval)

lemma Interest_period_row:
  "Interest_Component (period_row P r n ds e i b) = py_round2 (if r > 0 then b * r else 0)"
  by (simp add: period_row_def period_amounts_def Let_def split: prod.splits if_splits)

lemma period_row_nonneg_balances:
  assumes "0 < b"
  shows "0 \<le> Opening_Balance (period_row P r n ds e i b) \<and>
         0 \<le> Interest_Component (period_row P r n ds e i b) \<and>
         0 \<le> Closing_Balance (period_row P r n ds e i b)"
proof -
  have "0 \<le> (if r > 0 then b * r else 0)" using assms by simp
  then show ?thesis
    using assms period_closing_nonneg [of P r n e b]
    by (simp add: Interest_period_row py_round2_nonneg del: mult_nonneg_nonneg)
qed

lemma unclamped_principal_nonneg:
  assumes "0 < b" "b \<le> P" "0 \<le> e" "P * r \<le> e"
  shows "0 \<le> (if r > 0 then e - b * r else P / real n)"
proof (cases "r > 0")
  case True
  then have "b * r \<le> P * r" using assms(2) by (simp add: mult_right_mono)
  then have "b * r \<le> e" using assms(4) by linarith
  then show ?thesis using True by simp
next
  case False
  then show ?thesis using assms(1,2) by simp
qed

lemma period_row_nonneg_payment:
  assumes "0 < b" "b \<le> P" "0 \<le> e" "P * r \<le> e"
  shows "0 \<le> Principal_Component (period_row P r n ds e i b) \<and>
         0 \<le> EMI (period_row P r n ds e i b)"
proof -
  have pc: "0 \<le> (if r > 0 then e - b * r else P / real n)"
    using assms by (rule unclamped_principal_nonneg)
  have ic: "0 \<le> (if r > 0 then b * r else 0)" using assms(1) by simp
  show ?thesis
    using pc ic assms(1,3)
    by (auto simp: period_row_def period_amounts_def Let_def py_round2_nonneg
        split: prod.splits if_splits)
qed

lemma period_closing_le:
  assumes "0 < b" "b \<le> P" "0 \<le> e" "P * r \<le> e"
  shows "period_closing P r n e b \<le> b"
proof -
  have pc: "0 \<le> (if r > 0 then e - b * r else P / real n)"
    using assms by (rule unclamped_principal_nonneg)
  show ?thesis
    using pc assms(1)
    by (auto simp: period_closing_def period_amounts_def Let_def split: prod.splits if_splits)
qed

lemma rows_from_nonneg_balances:
  assumes "0 < b" "k < length (rows_from P r n ds e i b)"
  shows "0 \<le> Opening_Balance (rows_from P r n ds e i b ! k) \<and>
         0 \<le> Interest_Component (rows_from P r n ds e i b ! k) \<and>
         0 \<le> Closing_Balance (rows_from P r n ds e i b ! k)"
proof (rule rows_from_all [where Q = "\<lambda>b. 0 < b" and b = b, OF _ _ assms])
  show "\<And>i b. 0 < b \<Longrightarrow> i < n \<Longrightarrow>
      0 \<le> Opening_Balance (period_row P r n ds e i b) \<and>
      0 \<le> Interest_Component (period_row P r n ds e i b) \<and>
      0 \<le> Closing_Balance (period_row P r n ds e i b)"
    by (rule period_row_nonneg_balances)
  show "\<And>b. 0 < b \<Longrightarrow> \<not> period_closing P r n e b \<le> 0 \<Longrightarrow> 0 < period_closing P r n e b"
    by simp
qed

lemma rows_from_nonneg_payment:
  assumes e: "0 \<le> e" "P * r \<le> e"
    and b: "0 < b \<and> b \<le> P" and k: "k < length (rows_from P r n ds e i b)"
  shows "0 \<le> Principal_Component (rows_from P r n ds e i b ! k) \<and>
         0 \<le> EMI (rows_from P r n ds e i b ! k)"
proof (rule rows_from_all [where Q = "\<lambda>b. 0 < b \<and> b \<le> P" and b = b, OF _ _ b k])
  show "\<And>i b. 0 < b \<and> b \<le> P \<Longrightarrow> i < n \<Longrightarrow>
      0 \<le> Principal_Component (period_row P r n ds e i b) \<and>
      0 \<le> EMI (period_row P r n ds e i b)"
    using e period_row_nonneg_payment by blast
  show "\<And>b. 0 < b \<and> b \<le> P \<Longrightarrow> \<not> period_closing P r n e b \<le> 0 \<Longrightarrow>
      0 < period_closing P r n e b \<and> period_closing P r n e b \<le> P"
    using e period_closing_le [of _ P e r n] by fastforce
qed

lemma period_amounts_clamped:
  "(if r > 0 then e - b * r else P / real n) > b \<Longrightarrow>
   period_amounts P r n e b =
     (b + (if r > 0 then b * r else 0), b, (if r > 0 then b * r else 0), 0)"
  by (cases "r > 0") (simp_all add: period_amounts_def Let_def)

lemma sched_1000_12_2_600:
  "generate_schedule (\<lambda>d n. False) 1000 12 2 \<lparr>year = 2024, month = 1, day = 15\<rparr> 600 =
     [\<lparr>Month_No = 1, Date = Some \<lparr>year = 2024, month = 2, day = 1\<rparr>,
       Opening_Balance = 1000, EMI = 600, Principal_Component = 590,
       Interest_Component = 10, Closing_Balance = 410\<rparr>,
      \<lparr>Month_No = 2, Date = Some \<lparr>year = 2024, month = 3, day = 1\<rparr>,
       Opening_Balance = 410, EMI = 4141 / 10, Principal_Component = 410,
       Interest_Component = 41 / 10, Closing_Balance = 0\<rparr>]"
  by (simp add: schedule_eval)

lemma sched_1000_12_1_0:
  "generate_schedule (\<lambda>d n. False) 1000 12 1 \<lparr>year = 2024, month = 1, day = 1\<rparr> 0 =
     [\<lparr>Month_No = 1, Date = Some \<lparr>year = 2024, month = 1, day = 1\<rparr>,
       Opening_Balance = 1000, EMI = 0, Principal_Component = - 10,
       Interest_Component = 10, Closing_Balance = 1010\<rparr>]"
  by (simp add: schedule_eval)

lemma square_bounds:
  fixes x :: real
  assumes "l \<le> x" "x \<le> h" "0 \<le> l" "l' \<le> l\<^sup>2" "h\<^sup>2 \<le> h'"
  shows "l' \<le> x\<^sup>2 \<and> x\<^sup>2 \<le> h'"
proof -
  have "l\<^sup>2 \<le> x\<^sup>2" using assms(1,3) by (rule power_mono)
  moreover have "x\<^sup>2 \<le> h\<^sup>2" using assms(1,2,3) by (intro power_mono) linarith+
  ultimately show ?thesis using assms(4,5) by linarith
qed

lemma growth_15:
  "11048042177 / 10000000000 \<le> (151 / 150 :: real) ^ 15 \<and>
   (151 / 150 :: real) ^ 15 \<le> 11048042178 / 10000000000"
  by (simp add: power_divide)

lemma growth_30:
  "12205923594 / 10000000000 \<le> (151 / 150 :: real) ^ 30 \<and>
   (151 / 150 :: real) ^ 30 \<le> 12205923597 / 10000000000"
proof -
  have "(151 / 150 :: real) ^ 30 = ((151 / 150) ^ 15)\<^sup>2"
    by (simp only: power_mult [symmetric]) simp
  then show ?thesis
    using square_bounds [OF conjunct1 [OF growth_15] conjunct2 [OF growth_15],
        of "12205923594 / 10000000000" "12205923597 / 10000000000"]
    by (simp add: power2_eq_square)
qed

lemma growth_60:
  "14898457078 / 10000000000 \<le> (151 / 150 :: real) ^ 60 \<and>
   (151 / 150 :: real) ^ 60 \<le> 14898457086 / 10000000000"
proof -
  have "(151 / 150 :: real) ^ 60 = ((151 / 150) ^ 30)\<^sup>2"
    by (simp only: power_mult [symmetric]) simp
  then show ?thesis
    using square_bounds [OF conjunct1 [OF growth_30] conjunct2 [OF growth_30],
        of "14898457078 / 10000000000" "14898457086 / 10000000000"]
    by (simp add: power2_eq_square)
qed

lemma growth_120:
  "22196402330 / 10000000000 \<le> (151 / 150 :: real) ^ 120 \<and>
   (151 / 150 :: real) ^ 120 \<le> 22196402355 / 10000000000"
proof -
  have "(151 / 150 :: real) ^ 120 = ((151 / 150) ^ 60)\<^sup>2"
    by (simp only: power_mult [symmetric]) simp
  then show ?thesis
    using square_bounds [OF conjunct1 [OF growth_60] conjunct2 [OF growth_60],
        of "22196402330 / 10000000000" "22196402355 / 10000000000"]
    by (simp add: power2_eq_square)
qed

lemma emi_500000_8_120_bounds:
  "606637 / 100 < (500000 * (8 / 12 / 100) * (1 + 8 / 12 / 100) ^ 120 / ((1 + 8 / 12 / 100) ^ 120 - 1) :: real) \<and>
   (500000 * (8 / 12 / 100) * (1 + 8 / 12 / 100) ^ 120 / ((1 + 8 / 12 / 100) ^ 120 - 1) :: real) < 606639 / 100"
proof -
  define x :: real where "x = (151 / 150) ^ 120"
  have r: "(1 + 8 / 12 / 100 :: real) = 151 / 150" by simp
  have c: "(500000 * (8 / 12 / 100) :: real) = 10000 / 3" by simp
  have x: "22196402330 / 10000000000 \<le> x" "x \<le> 22196402355 / 10000000000"
    using growth_120 by (simp_all only: x_def)
  have pos: "0 < x - 1" using x(1) by linarith
  have d: "a * (x - 1) = a * x - a" for a :: real by (simp add: algebra_simps)
  have "606637 / 100 * (x - 1) = 606637 / 100 * x - 606637 / 100" by (rule d)
  then have "606637 / 100 * (x - 1) < 10000 / 3 * x" using x(2) by linarith
  then have lo: "606637 / 100 < 10000 / 3 * x / (x - 1)"
    using pos by (simp only: pos_less_divide_eq)
  have "606639 / 100 * (x - 1) = 606639 / 100 * x - 606639 / 100" by (rule d)
  then have "10000 / 3 * x < 606639 / 100 * (x - 1)" using x(1) by linarith
  then have hi: "10000 / 3 * x / (x - 1) < 606639 / 100"
    using pos by (simp only: pos_divide_less_eq)
  show ?thesis unfolding r c x_def [symmetric] using lo hi by blast
qed

lemma emi_500000_8_120_value:
  "calculate_emi 500000 8 120 =
     Inr (500000 * (8 / 12 / 100) * (1 + 8 / 12 / 100) ^ 120 / ((1 + 8 / 12 / 100) ^ 120 - 1))"
proof -
  have "(151 / 150 :: real) ^ 120 \<noteq> 1" using growth_120 by linarith
  then show ?thesis by (simp add: calculate_emi_def Let_def)
qed

lemma rows_from_track:
  assumes step: "\<And>j. i \<le> j \<Longrightarrow> j < n \<Longrightarrow> period_closing P r n e (B j) = B (Suc j)"
    and pos: "\<And>j. i \<le> j \<Longrightarrow> Suc j < n \<Longrightarrow> 0 < B (Suc j)"
    and fin: "B n \<le> 0"
  shows "rows_from P r n ds e i (B i) = map (\<lambda>j. period_row P r n ds e j (B j)) [i..<n]"
  using step pos
proof (induction "n - i" arbitrary: i)
  case 0
  then show ?case by (simp add: rows_from_done)
next
  case (Suc m)
  from Suc.hyps(2) have lt: "i < n" and m: "m = n - Suc i" by simp_all
  have cl: "period_closing P r n e (B i) = B (Suc i)" using lt by (simp add: Suc.prems(1))
  show ?case
  proof (cases "Suc i < n")
    case True
    then have "\<not> period_closing P r n e (B i) \<le> 0"
      using Suc.prems(2) [of i] cl by simp
    then have "rows_from P r n ds e i (B i) =
        period_row P r n ds e i (B i) # rows_from P r n ds e (Suc i) (B (Suc i))"
      using lt cl rows_from_next [of i n P r e "B i" ds] by simp
    moreover have "rows_from P r n ds e (Suc i) (B (Suc i)) =
        map (\<lambda>j. period_row P r n ds e j (B j)) [Suc i..<n]"
      using Suc.prems by (intro Suc.hyps(1) [OF m]) simp_all
    ultimately show ?thesis using lt by (simp add: upt_conv_Cons)
  next
    case False
    then have n: "n = Suc i" using lt by simp
    then have "period_closing P r n e (B i) \<le> 0" using cl fin by simp
    then have "rows_from P r n ds e i (B i) = [period_row P r n ds e i (B i)]"
      using lt by (rule rows_from_stop [rotated])
    then show ?thesis using n by simp
  qed
qed

lemma rows_from_date:
  "k < length (rows_from P r n ds e i b) \<Longrightarrow> Date (rows_from P r n ds e i b ! k) = ds ! (i + k)"
proof (induction "n - i" arbitrary: i b k)
  case 0
  then show ?case by (simp add: rows_from_done)
next
  case (Suc m)
  from Suc.hyps(2) have lt: "i < n" and m: "m = n - Suc i" by simp_all
  show ?case
  proof (cases "period_closing P r n e b \<le> 0")
    case True
    then show ?thesis using lt Suc.prems by (simp add: rows_from_stop)
  next
    case False
    show ?thesis
    proof (cases k)
      case 0
      then show ?thesis using lt False by (simp add: rows_from_next)
    next
      case (Suc j)
      then show ?thesis
        using lt False Suc.prems Suc.hyps(1) [OF m, of j "period_closing P r n e b"]
        by (simp add: rows_from_next)
    qed
  qed
qed

lemma linear_closing:
  assumes "r \<le> 0" "0 < P" "j < n"
  shows "period_closing P r n e (P * real (n - j) / real n) = P * real (n - Suc j) / real n"
proof -
  have n: "0 < real n" using assms(3) by simp
  have "real (n - j) = real (n - Suc j) + 1" using assms(3) by (simp add: of_nat_diff)
  then have eq: "P * real (n - j) / real n = P * real (n - Suc j) / real n + P / real n"
    by (simp add: field_simps)
  have "0 \<le> P * real (n - Suc j) / real n" using assms(2) by simp
  then have "\<not> P / real n > P * real (n - j) / real n" using eq by linarith
  then show ?thesis
    using assms(1) eq by (simp add: period_closing_def period_amounts_def Let_def)
qed

lemma linear_rows:
  assumes "r \<le> 0" "0 < P" "0 < n"
  shows "rows_from P r n ds e 0 P =
     map (\<lambda>j. period_row P r n ds e j (P * real (n - j) / real n)) [0..<n]"
proof -
  have "rows_from P r n ds e 0 (P * real (n - 0) / real n) =
     map (\<lambda>j. period_row P r n ds e j (P * real (n - j) / real n)) [0..<n]"
  proof (rule rows_from_track)
    show "\<And>j. 0 \<le> j \<Longrightarrow> j < n \<Longrightarrow>
        period_closing P r n e (P * real (n - j) / real n) = P * real (n - Suc j) / real n"
      using assms(1,2) by (rule linear_closing)
    show "\<And>j. 0 \<le> j \<Longrightarrow> Suc j < n \<Longrightarrow> 0 < P * real (n - Suc j) / real n"
      using assms(2) by simp
    show "P * real (n - n) / real n \<le> 0" by simp
  qed
  then show ?thesis using assms(3) by simp
qed

lemma linear_row_fields:
  assumes "r \<le> 0" "0 < P" "j < n"
  shows "Principal_Component (period_row P r n ds e j (P * real (n - j) / real n)) = py_round2 (P / real n)"
    and "Interest_Component (period_row P r n ds e j (P * real (n - j) / real n)) = 0"
proof -
  have "real (n - j) = real (n - Suc j) + 1" using assms(3) by (simp add: of_nat_diff)
  then have eq: "P * real (n - j) / real n - P * real (n - Suc j) / real n = P / real n"
    by (simp add: field_simps)
  show "Principal_Component (period_row P r n ds e j (P * real (n - j) / real n)) = py_round2 (P / real n)"
    by (simp only: Principal_period_row_clamped linear_closing [OF assms] eq)
  show "Interest_Component (period_row P r n ds e j (P * real (n - j) / real n)) = 0"
    using assms(1) by (simp add: Interest_period_row py_round2_zero)
qed

lemma linear_schedule:
  assumes "r \<le> 0" "0 < P" "0 < n"
  shows "length (rows_from P r n ds e 0 P) = n"
    and "k < n \<Longrightarrow> Principal_Component (rows_from P r n ds e 0 P ! k) = py_round2 (P / real n)"
    and "k < n \<Longrightarrow> Interest_Component (rows_from P r n ds e 0 P ! k) = 0"
  using linear_row_fields [OF assms(1,2)] by (simp_all add: linear_rows [OF assms])



lemma zero_rate_rows:
  assumes "0 < n" "0 < P"
  shows "length (generate_schedule raises P 0 n start_date e) = nat n"
    and "k < nat n \<Longrightarrow>
      Principal_Component (generate_schedule raises P 0 n start_date e ! k) = py_round2 (P / of_int n)"
    and "k < nat n \<Longrightarrow>
      Interest_Component (generate_schedule raises P 0 n start_date e ! k) = 0"
proof -
  have rows: "generate_schedule raises P 0 n start_date e =
      rows_from P 0 (nat n) (schedule_dates raises start_date (nat n)) e 0 P"
    using assms generate_schedule_rows [of n P raises 0 start_date e] by simp
  have n: "0 < nat n" and rn: "real (nat n) = of_int n" using assms(1) by simp_all
  note ls = linear_schedule [OF order_refl assms(2) n,
      where ds = "schedule_dates raises start_date (nat n)" and e = e]
  show "length (generate_schedule raises P 0 n start_date e) = nat n"
    unfolding rows by (rule ls(1))
  show "k < nat n \<Longrightarrow>
      Principal_Component (generate_schedule raises P 0 n start_date e ! k) = py_round2 (P / of_int n)"
    unfolding rows rn [symmetric] by (rule ls(2))
  show "k < nat n \<Longrightarrow>
      Interest_Component (generate_schedule raises P 0 n start_date e ! k) = 0"
    unfolding rows by (rule ls(3))
qed



lemma schedule_dates_nth:
  "k < n \<Longrightarrow> schedule_dates raises start n ! k =
     (if raises start n then None else Some (month_start start k))"
  by (simp add: schedule_dates_def pd_date_range_MS_def)

lemma schedule_date_field:
  assumes "k < length (generate_schedule raises princ annual_rate total_months start_date emi)"
  shows "Date (generate_schedule raises princ annual_rate total_months start_date emi ! k) =
     (if raises start_date (nat total_months) then None else Some (month_start start_date k))"
proof (cases "0 < total_months \<and> 0 < princ")
  case True
  let ?n = "nat total_months"
  let ?ds = "schedule_dates raises start_date ?n"
  let ?rs = "rows_from princ (annual_rate / 12 / 100) ?n ?ds emi 0 princ"
  have rows: "generate_schedule raises princ annual_rate total_months start_date emi = ?rs"
    using True by (simp only: generate_schedule_rows)
  have k: "k < length ?rs" using assms by (simp only: rows)
  moreover have "length ?rs \<le> ?n - 0" by (rule rows_from_length)
  ultimately have kn: "k < ?n" by linarith
  have "Date (?rs ! k) = ?ds ! (0 + k)" using k by (rule rows_from_date)
  then show ?thesis using kn by (simp add: rows schedule_dates_nth)
next
  case False
  then show ?thesis using assms by (simp add: generate_schedule_empty)
qed



lemma rows_from_positive_between:
  "0 < k \<Longrightarrow> k < length (rows_from P r n ds e i b) \<Longrightarrow>
   0 < (period_closing P r n e ^^ k) b"
proof (induction "n - i" arbitrary: i b k)
  case 0
  then show ?case by (simp add: rows_from_done)
next
  case (Suc m)
  from Suc.hyps(2) have lt: "i < n" and m: "m = n - Suc i" by simp_all
  show ?case
  proof (cases "period_closing P r n e b \<le> 0")
    case True
    then show ?thesis using lt Suc.prems by (simp add: rows_from_stop)
  next
    case False
    with lt have eq: "rows_from P r n ds e i b =
        period_row P r n ds e i b # rows_from P r n ds e (Suc i) (period_closing P r n e b)"
      by (rule rows_from_next)
    obtain j where k: "k = Suc j" using Suc.prems(1) by (cases k) simp_all
    have j: "j < length (rows_from P r n ds e (Suc i) (period_closing P r n e b))"
      using Suc.prems(2) by (simp add: eq k)
    show ?thesis
    proof (cases "j = 0")
      case True
      then show ?thesis using False by (simp add: k)
    next
      case nz: False
      then have "0 < (period_closing P r n e ^^ j) (period_closing P r n e b)"
        using j by (intro Suc.hyps(1) [OF m]) simp_all
      then show ?thesis by (simp add: k funpow_swap1)
    qed
  qed
qed

lemma balance_from_funpow:
  "balance_from P r n ds e i b =
     (period_closing P r n e ^^ length (rows_from P r n ds e i b)) b"
proof (induction "n - i" arbitrary: i b)
  case 0
  then show ?case by (simp add: rows_from_done balance_from_done)
next
  case (Suc m)
  from Suc.hyps(2) have lt: "i < n" and m: "m = n - Suc i" by simp_all
  show ?case
  proof (cases "period_closing P r n e b \<le> 0")
    case True
    then show ?thesis using lt by (simp add: rows_from_stop balance_from_stop)
  next
    case False
    then show ?thesis
      using lt Suc.hyps(1) [OF m, of "period_closing P r n e b"]
      by (simp add: rows_from_next balance_from_next funpow_swap1)
  qed
qed

lemma rows_from_opening:
  "k < length (rows_from P r n ds e i b) \<Longrightarrow>
   Opening_Balance (rows_from P r n ds e i b ! k) = py_round2 ((period_closing P r n e ^^ k) b)"
proof (induction "n - i" arbitrary: i b k)
  case 0
  then show ?case by (simp add: rows_from_done)
next
  case (Suc m)
  from Suc.hyps(2) have lt: "i < n" and m: "m = n - Suc i" by simp_all
  show ?case
  proof (cases "period_closing P r n e b \<le> 0")
    case True
    then show ?thesis using lt Suc.prems by (simp add: rows_from_stop)
  next
    case False
    show ?thesis
    proof (cases k)
      case 0
      then show ?thesis using lt False by (simp add: rows_from_next)
    next
      case (Suc j)
      then show ?thesis
        using lt False Suc.prems Suc.hyps(1) [OF m, of j "period_closing P r n e b"]
        by (simp add: rows_from_next funpow_swap1)
    qed
  qed
qed

lemma sched_1000_12_5_600:
  "generate_schedule (\<lambda>d n. False) 1000 12 5 \<lparr>year = 2024, month = 1, day = 15\<rparr> 600 =
     [\<lparr>Month_No = 1, Date = Some \<lparr>year = 2024, month = 2, day = 1\<rparr>,
       Opening_Balance = 1000, EMI = 600, Principal_Component = 590,
       Interest_Component = 10, Closing_Balance = 410\<rparr>,
      \<lparr>Month_No = 2, Date = Some \<lparr>year = 2024, month = 3, day = 1\<rparr>,
       Opening_Balance = 410, EMI = 4141 / 10, Principal_Component = 410,
       Interest_Component = 41 / 10, Closing_Balance = 0\<rparr>]"
  by (simp add: schedule_eval)

lemma py_round2_nearest_cent:
  "\<bar>py_round2 x - x\<bar> \<le> 1 / 200 \<and> (\<exists>c::int. py_round2 x = of_int c / 100)"
proof -
  obtain k :: int where "py_round2 x = of_int k / 100" "\<bar>of_int k - x * 100\<bar> \<le> 1 / 2"
    by (rule py_round2_cases)
  then show ?thesis using py_round2_err [of x] by blast
qed

lemma rows_from_nonlast:
  assumes step: "\<And>i b. i < n \<Longrightarrow> \<not> period_closing P r n e b \<le> 0 \<Longrightarrow> R (period_row P r n ds e i b)"
  shows "Suc k < length (rows_from P r n ds e i b) \<Longrightarrow> R (rows_from P r n ds e i b ! k)"
proof (induction "n - i" arbitrary: i b k)
  case 0
  then show ?case by (simp add: rows_from_done)
next
  case (Suc m)
  from Suc.hyps(2) have lt: "i < n" and m: "m = n - Suc i" by simp_all
  show ?case
  proof (cases "period_closing P r n e b \<le> 0")
    case True
    then show ?thesis using lt Suc.prems by (simp add: rows_from_stop)
  next
    case False
    have R0: "R (period_row P r n ds e i b)" using lt False by (rule step)
    show ?thesis
    proof (cases k)
      case 0
      then show ?thesis using lt False R0 by (simp add: rows_from_next)
    next
      case (Suc j)
      then show ?thesis
        using lt False Suc.prems Suc.hyps(1) [OF m, of j "period_closing P r n e b"]
        by (simp add: rows_from_next)
    qed
  qed
qed

lemma flat_row_unclamped:
  assumes "r \<le> 0" "\<not> period_closing P r n e b \<le> 0"
  shows "Principal_Component (period_row P r n ds e i b) = py_round2 (P / real n)"
  using assms
  by (auto simp: period_row_def period_closing_def period_amounts_def Let_def
      split: prod.splits if_splits)

lemma flat_row_cases:
  assumes "r \<le> 0"
  shows "Principal_Component (period_row P r n ds e i b) = py_round2 (P / real n) \<or>
         (Principal_Component (period_row P r n ds e i b) = Opening_Balance (period_row P r n ds e i b) \<and>
          Closing_Balance (period_row P r n ds e i b) = 0)"
  using assms
  by (auto simp: period_row_def period_closing_def period_amounts_def Let_def py_round2_zero
      split: prod.splits if_splits)

lemma flat_row_interest:
  "r \<le> 0 \<Longrightarrow> Interest_Component (period_row P r n ds e i b) = 0"
  by (simp add: Interest_period_row py_round2_zero)

lemma generate_schedule_nonempty:
  "k < length (generate_schedule raises princ annual_rate total_months start_date emi) \<Longrightarrow>
   0 < total_months \<and> 0 < princ"
  by (cases "0 < total_months \<and> 0 < princ") (simp_all add: generate_schedule_empty)

lemma flat_schedule_rows:
  assumes "annual_rate \<le> 0"
  shows "k < length (generate_schedule raises princ annual_rate total_months start_date emi) \<Longrightarrow>
      Interest_Component (generate_schedule raises princ annual_rate total_months start_date emi ! k) = 0 \<and>
      (Principal_Component (generate_schedule raises princ annual_rate total_months start_date emi ! k) =
         py_round2 (princ / of_int total_months) \<or>
       (Principal_Component (generate_schedule raises princ annual_rate total_months start_date emi ! k) =
          Opening_Balance (generate_schedule raises princ annual_rate total_months start_date emi ! k) \<and>
        Closing_Balance (generate_schedule raises princ annual_rate total_months start_date emi ! k) = 0))"
    and "Suc k < length (generate_schedule raises princ annual_rate total_months start_date emi) \<Longrightarrow>
      Principal_Component (generate_schedule raises princ annual_rate total_months start_date emi ! k) =
         py_round2 (princ / of_int total_months)"
proof -
  let ?r = "annual_rate / 12 / 100"
  let ?n = "nat total_months"
  let ?ds = "schedule_dates raises start_date ?n"
  let ?gs = "generate_schedule raises princ annual_rate total_months start_date emi"
  have r: "?r \<le> 0" using assms by simp
  {
    assume k: "k < length ?gs"
    then have g: "0 < total_months" "0 < princ"
      using generate_schedule_nonempty by blast+
    have rows: "?gs = rows_from princ ?r ?n ?ds emi 0 princ"
      using g by (rule generate_schedule_rows)
    have rn: "real ?n = of_int total_months" using g(1) by simp
    have "Interest_Component (rows_from princ ?r ?n ?ds emi 0 princ ! k) = 0 \<and>
      (Principal_Component (rows_from princ ?r ?n ?ds emi 0 princ ! k) = py_round2 (princ / real ?n) \<or>
       (Principal_Component (rows_from princ ?r ?n ?ds emi 0 princ ! k) =
          Opening_Balance (rows_from princ ?r ?n ?ds emi 0 princ ! k) \<and>
        Closing_Balance (rows_from princ ?r ?n ?ds emi 0 princ ! k) = 0))"
    proof (rule rows_from_all [where Q = "\<lambda>b. True" and b = princ, OF _ _ TrueI])
      show "\<And>i b. True \<Longrightarrow> i < ?n \<Longrightarrow>
        Interest_Component (period_row princ ?r ?n ?ds emi i b) = 0 \<and>
        (Principal_Component (period_row princ ?r ?n ?ds emi i b) = py_round2 (princ / real ?n) \<or>
         (Principal_Component (period_row princ ?r ?n ?ds emi i b) =
            Opening_Balance (period_row princ ?r ?n ?ds emi i b) \<and>
          Closing_Balance (period_row princ ?r ?n ?ds emi i b) = 0))"
        using flat_row_interest [OF r] flat_row_cases [OF r] by blast
      show "k < length (rows_from princ ?r ?n ?ds emi 0 princ)" using k by (simp only: rows)
    qed simp
    then show "Interest_Component (?gs ! k) = 0 \<and>
      (Principal_Component (?gs ! k) = py_round2 (princ / of_int total_months) \<or>
       (Principal_Component (?gs ! k) = Opening_Balance (?gs ! k) \<and>
        Closing_Balance (?gs ! k) = 0))"
      by (simp only: rows rn)
  }
  {
    assume k: "Suc k < length ?gs"
    then have "k < length ?gs" by simp
    then have g: "0 < total_months" "0 < princ"
      using generate_schedule_nonempty by blast+
    have rows: "?gs = rows_from princ ?r ?n ?ds emi 0 princ"
      using g by (rule generate_schedule_rows)
    have rn: "real ?n = of_int total_months" using g(1) by simp
    have "Principal_Component (rows_from princ ?r ?n ?ds emi 0 princ ! k) = py_round2 (princ / real ?n)"
    proof (rule rows_from_nonlast)
      show "\<And>i b. i < ?n \<Longrightarrow> \<not> period_closing princ ?r ?n emi b \<le> 0 \<Longrightarrow>
          Principal_Component (period_row princ ?r ?n ?ds emi i b) = py_round2 (princ / real ?n)"
        using r by (rule flat_row_unclamped)
      show "Suc k < length (rows_from princ ?r ?n ?ds emi 0 princ)" using k by (simp only: rows)
    qed
    then show "Principal_Component (?gs ! k) = py_round2 (princ / of_int total_months)"
      by (simp only: rows rn)
  }
qed










section \<open>Degenerate inputs\<close>

text \<open>
  C7. Degenerate inputs give sentinel results, not errors: for every principal and
  rate, \<open>calculate_emi\<close> with \<open>total_months \<le> 0\<close> returns 0, and
  \<open>generate_schedule\<close> with \<open>total_months \<le> 0\<close> or \<open>principal \<le> 0\<close> returns the
  empty table.
\<close>

theorem degenerate_inputs:
  "(total_months \<le> 0 \<longrightarrow> calculate_emi princ annual_rate total_months = Inr 0) \<and>
   (total_months \<le> 0 \<or> princ \<le> 0 \<longrightarrow>
      generate_schedule raises princ annual_rate total_months start_date emi = [])"
  by (simp add: calculate_emi_def generate_schedule_def)

theorem degenerate_inputs_witness:
  "calculate_emi 1000 8 0 = Inr 0 \<and>
   generate_schedule (\<lambda>d n. False) 1000 8 0 \<lparr>year = 2024, month = 1, day = 15\<rparr> 50 = [] \<and>
   generate_schedule (\<lambda>d n. False) 0 8 12 \<lparr>year = 2024, month = 1, day = 15\<rparr> 50 = []"
  using degenerate_inputs [of 0 1000 8 "\<lambda>d n. False" "\<lparr>year = 2024, month = 1, day = 15\<rparr>" 50]
    degenerate_inputs [of 12 0 8 "\<lambda>d n. False" "\<lparr>year = 2024, month = 1, day = 15\<rparr>" 50]
  by simp

section \<open>The payment column\<close>

text \<open>
  C8. In every table \<open>generate_schedule\<close> returns, every row but the last has its
  \<open>EMI\<close> field equal to the payment amount passed in, rounded to two decimals: the
  final-period correction changes the payment of the last row only.
\<close>

theorem emi_field_nominal:
  "\<forall>k. Suc k < length (generate_schedule raises princ annual_rate total_months start_date emi) \<longrightarrow>
     EMI (generate_schedule raises princ annual_rate total_months start_date emi ! k) = py_round2 emi"
proof (cases "0 < total_months \<and> 0 < princ")
  case True
  then show ?thesis by (simp add: generate_schedule_rows rows_from_emi)
next
  case False
  then have "generate_schedule raises princ annual_rate total_months start_date emi = []"
    by (auto simp: generate_schedule_def)
  then show ?thesis by simp
qed

theorem emi_field_nominal_witness:
  "length (generate_schedule (\<lambda>d n. False) 1000 12 2 \<lparr>year = 2024, month = 1, day = 15\<rparr> 600) = 2 \<and>
   EMI (generate_schedule (\<lambda>d n. False) 1000 12 2 \<lparr>year = 2024, month = 1, day = 15\<rparr> 600 ! 0) = 600 \<and>
   EMI (generate_schedule (\<lambda>d n. False) 1000 12 2 \<lparr>year = 2024, month = 1, day = 15\<rparr> 600 ! 1) = 4141 / 10"
proof -
  have rows: "generate_schedule (\<lambda>d n. False) 1000 12 2 \<lparr>year = 2024, month = 1, day = 15\<rparr> 600 =
     [\<lparr>Month_No = 1, Date = Some \<lparr>year = 2024, month = 2, day = 1\<rparr>,
       Opening_Balance = 1000, EMI = 600, Principal_Component = 590,
       Interest_Component = 10, Closing_Balance = 410\<rparr>,
      \<lparr>Month_No = 2, Date = Some \<lparr>year = 2024, month = 3, day = 1\<rparr>,
       Opening_Balance = 410, EMI = 4141 / 10, Principal_Component = 410,
       Interest_Component = 41 / 10, Closing_Balance = 0\<rparr>]"
    by (simp add: schedule_eval)
  have r: "py_round2 600 = 600" by (simp add: py_round2_def)
  show ?thesis
    using emi_field_nominal [of "\<lambda>d n. False" 1000 12 2 "\<lparr>year = 2024, month = 1, day = 15\<rparr>" 600]
    by (simp add: rows r)
qed

section \<open>Balances of a row\<close>

text \<open>
  C6, as amended. In every table \<open>generate_schedule\<close> returns, the recorded closing
  balance of a row differs from its recorded opening balance minus its recorded principal
  component by at most one cent (each of the three fields is rounded on its own), and the
  opening balance of row \<open>i + 1\<close> equals the closing balance of row \<open>i\<close>.
\<close>

theorem closing_within_cent:
  "(\<forall>k < length (generate_schedule raises princ annual_rate total_months start_date emi).
      \<bar>Closing_Balance (generate_schedule raises princ annual_rate total_months start_date emi ! k) -
        (Opening_Balance (generate_schedule raises princ annual_rate total_months start_date emi ! k) -
         Principal_Component (generate_schedule raises princ annual_rate total_months start_date emi ! k))\<bar>
      \<le> 1 / 100) \<and>
   (\<forall>k. Suc k < length (generate_schedule raises princ annual_rate total_months start_date emi) \<longrightarrow>
      Opening_Balance (generate_schedule raises princ annual_rate total_months start_date emi ! Suc k) =
      Closing_Balance (generate_schedule raises princ annual_rate total_months start_date emi ! k))"
proof (cases "0 < total_months \<and> 0 < princ")
  case True
  then have "generate_schedule raises princ annual_rate total_months start_date emi =
     rows_from princ (annual_rate / 12 / 100) (nat total_months)
       (schedule_dates raises start_date (nat total_months)) emi 0 princ"
    by (simp only: generate_schedule_rows)
  then show ?thesis
    using rows_from_cent rows_from_chain by presburger
next
  case False
  then show ?thesis by (simp add: generate_schedule_empty)
qed

text \<open>
  The three recorded fields need not satisfy the equation exactly: for a principal of 100
  over 3 months at rate 0, the second row reads opening 66.67, principal 33.33,
  closing 33.33.
\<close>

theorem closing_exact_counterexample:
  "Closing_Balance (generate_schedule (\<lambda>d n. False) 100 0 3 \<lparr>year = 2024, month = 1, day = 1\<rparr> (100 / 3) ! 1) \<noteq>
   Opening_Balance (generate_schedule (\<lambda>d n. False) 100 0 3 \<lparr>year = 2024, month = 1, day = 1\<rparr> (100 / 3) ! 1) -
   Principal_Component (generate_schedule (\<lambda>d n. False) 100 0 3 \<lparr>year = 2024, month = 1, day = 1\<rparr> (100 / 3) ! 1)"
  by (simp add: sched_100_0_3)

theorem closing_within_cent_witness:
  "\<bar>Closing_Balance (generate_schedule (\<lambda>d n. False) 100 0 3 \<lparr>year = 2024, month = 1, day = 1\<rparr> (100 / 3) ! 1) -
     (Opening_Balance (generate_schedule (\<lambda>d n. False) 100 0 3 \<lparr>year = 2024, month = 1, day = 1\<rparr> (100 / 3) ! 1) -
      Principal_Component (generate_schedule (\<lambda>d n. False) 100 0 3 \<lparr>year = 2024, month = 1, day = 1\<rparr> (100 / 3) ! 1))\<bar>
     \<le> 1 / 100 \<and>
   Opening_Balance (generate_schedule (\<lambda>d n. False) 100 0 3 \<lparr>year = 2024, month = 1, day = 1\<rparr> (100 / 3) ! 2) =
   Closing_Balance (generate_schedule (\<lambda>d n. False) 100 0 3 \<lparr>year = 2024, month = 1, day = 1\<rparr> (100 / 3) ! 1)"
proof -
  have len: "length (generate_schedule (\<lambda>d n. False) 100 0 3 \<lparr>year = 2024, month = 1, day = 1\<rparr> (100 / 3)) = 3"
    by (simp add: sched_100_0_3)
  have k1: "1 < length (generate_schedule (\<lambda>d n. False) 100 0 3 \<lparr>year = 2024, month = 1, day = 1\<rparr> (100 / 3))"
    and k2: "Suc 1 < length (generate_schedule (\<lambda>d n. False) 100 0 3 \<lparr>year = 2024, month = 1, day = 1\<rparr> (100 / 3))"
    by (simp_all add: len)
  note th = closing_within_cent [of "\<lambda>d n. False" 100 0 3 "\<lparr>year = 2024, month = 1, day = 1\<rparr>" "100 / 3"]
  note a = th [THEN conjunct1, rule_format, OF k1]
  note b = th [THEN conjunct2, rule_format, OF k2]
  have two: "Suc 1 = 2" by simp
  show ?thesis using a b unfolding two by (rule conjI)
qed

section \<open>Signs of the fields\<close>

text \<open>
  C2, as amended. For \<open>total_months > 0\<close>, \<open>principal > 0\<close> and every payment amount,
  the opening balance, the interest component and the closing balance of every row are
  non-negative. The principal component and the \<open>EMI\<close> field are non-negative when the
  payment amount is non-negative and covers the interest of the first period,
  \<open>principal * monthly_rate\<close>. The closing balance is never negative because a principal
  component above the running balance is replaced by that balance, the payment of the
  period becoming principal component plus interest component.
\<close>

theorem fields_nonneg:
  assumes "0 < total_months" and "0 < princ"
  shows "(\<forall>k < length (generate_schedule raises princ annual_rate total_months start_date emi).
            0 \<le> Opening_Balance (generate_schedule raises princ annual_rate total_months start_date emi ! k) \<and>
            0 \<le> Interest_Component (generate_schedule raises princ annual_rate total_months start_date emi ! k) \<and>
            0 \<le> Closing_Balance (generate_schedule raises princ annual_rate total_months start_date emi ! k)) \<and>
         (0 \<le> emi \<and> princ * (annual_rate / 12 / 100) \<le> emi \<longrightarrow>
          (\<forall>k < length (generate_schedule raises princ annual_rate total_months start_date emi).
            0 \<le> Principal_Component (generate_schedule raises princ annual_rate total_months start_date emi ! k) \<and>
            0 \<le> EMI (generate_schedule raises princ annual_rate total_months start_date emi ! k))) \<and>
         (\<forall>balance. balance < (if annual_rate / 12 / 100 > 0 then emi - balance * (annual_rate / 12 / 100)
                                 else princ / real (nat total_months)) \<longrightarrow>
            period_amounts princ (annual_rate / 12 / 100) (nat total_months) emi balance =
              (balance + (if annual_rate / 12 / 100 > 0 then balance * (annual_rate / 12 / 100) else 0),
               balance,
               (if annual_rate / 12 / 100 > 0 then balance * (annual_rate / 12 / 100) else 0),
               0))"
proof -
  let ?r = "annual_rate / 12 / 100"
  let ?n = "nat total_months"
  let ?rs = "rows_from princ ?r ?n (schedule_dates raises start_date ?n) emi 0 princ"
  have rows: "generate_schedule raises princ annual_rate total_months start_date emi = ?rs"
    using assms by (rule generate_schedule_rows)
  have 1: "\<forall>k < length ?rs. 0 \<le> Opening_Balance (?rs ! k) \<and> 0 \<le> Interest_Component (?rs ! k) \<and>
      0 \<le> Closing_Balance (?rs ! k)"
    using rows_from_nonneg_balances [OF assms(2)] by blast
  have 2: "0 \<le> emi \<and> princ * ?r \<le> emi \<longrightarrow>
      (\<forall>k < length ?rs. 0 \<le> Principal_Component (?rs ! k) \<and> 0 \<le> EMI (?rs ! k))"
    using rows_from_nonneg_payment [of emi princ ?r princ] assms(2) by blast
  have 3: "\<forall>balance. balance < (if ?r > 0 then emi - balance * ?r else princ / real ?n) \<longrightarrow>
      period_amounts princ ?r ?n emi balance =
        (balance + (if ?r > 0 then balance * ?r else 0), balance,
         (if ?r > 0 then balance * ?r else 0), 0)"
    using period_amounts_clamped [of _ ?r emi princ ?n] by blast
  show ?thesis unfolding rows using 1 2 3 by blast
qed

text \<open>
  A payment amount below the interest of a period gives a negative principal component:
  with a principal of 1000 at 12 percent and a payment of 0, the first row records a
  principal component of -10.
\<close>

theorem fields_nonneg_counterexample:
  "Principal_Component
     (generate_schedule (\<lambda>d n. False) 1000 12 1 \<lparr>year = 2024, month = 1, day = 1\<rparr> 0 ! 0) < 0"
  by (simp add: sched_1000_12_1_0)

theorem fields_nonneg_witness:
  "0 \<le> Opening_Balance (generate_schedule (\<lambda>d n. False) 1000 12 2 \<lparr>year = 2024, month = 1, day = 15\<rparr> 600 ! 1) \<and>
   0 \<le> Interest_Component (generate_schedule (\<lambda>d n. False) 1000 12 2 \<lparr>year = 2024, month = 1, day = 15\<rparr> 600 ! 1) \<and>
   0 \<le> Closing_Balance (generate_schedule (\<lambda>d n. False) 1000 12 2 \<lparr>year = 2024, month = 1, day = 15\<rparr> 600 ! 1) \<and>
   0 \<le> Principal_Component (generate_schedule (\<lambda>d n. False) 1000 12 2 \<lparr>year = 2024, month = 1, day = 15\<rparr> 600 ! 1) \<and>
   0 \<le> EMI (generate_schedule (\<lambda>d n. False) 1000 12 2 \<lparr>year = 2024, month = 1, day = 15\<rparr> 600 ! 1) \<and>
   period_amounts 1000 (12 / 12 / 100) (nat 2) 600 410 =
     (410 + (if (12::real) / 12 / 100 > 0 then 410 * (12 / 12 / 100) else 0), 410,
      (if (12::real) / 12 / 100 > 0 then 410 * (12 / 12 / 100) else 0), 0)"
proof -
  have len: "length (generate_schedule (\<lambda>d n. False) 1000 12 2 \<lparr>year = 2024, month = 1, day = 15\<rparr> 600) = 2"
    by (simp add: sched_1000_12_2_600)
  have pay: "(0::real) \<le> 600 \<and> (1000::real) * (12 / 12 / 100) \<le> 600" by simp
  have clamp: "(410::real) < (if (12::real) / 12 / 100 > 0 then 600 - 410 * (12 / 12 / 100)
      else 1000 / real (nat 2))" by simp
  have k: "(1::nat) < 2" by simp
  note th = fields_nonneg [of 2 1000 "\<lambda>d n. False" 12 "\<lparr>year = 2024, month = 1, day = 15\<rparr>" 600,
      unfolded len]
  from th have a: "\<forall>k<2. 0 \<le> Opening_Balance (generate_schedule (\<lambda>d n. False) 1000 12 2 \<lparr>year = 2024, month = 1, day = 15\<rparr> 600 ! k) \<and>
            0 \<le> Interest_Component (generate_schedule (\<lambda>d n. False) 1000 12 2 \<lparr>year = 2024, month = 1, day = 15\<rparr> 600 ! k) \<and>
            0 \<le> Closing_Balance (generate_schedule (\<lambda>d n. False) 1000 12 2 \<lparr>year = 2024, month = 1, day = 15\<rparr> 600 ! k)"
    by simp
  from th pay have b: "\<forall>k<2. 0 \<le> Principal_Component (generate_schedule (\<lambda>d n. False) 1000 12 2 \<lparr>year = 2024, month = 1, day = 15\<rparr> 600 ! k) \<and>
            0 \<le> EMI (generate_schedule (\<lambda>d n. False) 1000 12 2 \<lparr>year = 2024, month = 1, day = 15\<rparr> 600 ! k)"
    by simp
  from th have c: "\<forall>balance. balance < (if (12::real) / 12 / 100 > 0 then 600 - balance * (12 / 12 / 100)
                                 else 1000 / real (nat 2)) \<longrightarrow>
            period_amounts 1000 (12 / 12 / 100) (nat 2) 600 balance =
              (balance + (if (12::real) / 12 / 100 > 0 then balance * (12 / 12 / 100) else 0),
               balance,
               (if (12::real) / 12 / 100 > 0 then balance * (12 / 12 / 100) else 0),
               0)"
    by simp
  show ?thesis
    using a [rule_format, OF k] b [rule_format, OF k] c [rule_format, OF clamp] by blast
qed

section \<open>The payment of the first scenario\<close>

text \<open>
  C3, as amended. For a non-zero monthly rate \<open>annual_rate / 12 / 100\<close> (and a non-zero
  divisor) \<open>calculate_emi\<close> returns
  \<open>principal * monthly_rate * (1 + monthly_rate) ^ total_months /
  ((1 + monthly_rate) ^ total_months - 1)\<close>, and for a principal of 500000 at 8 percent
  over 120 months this value is within 0.01 of 6066.38.
\<close>

theorem emi_formula_scenario:
  "(0 < total_months \<and> annual_rate / 12 / 100 \<noteq> 0 \<and>
    (1 + annual_rate / 12 / 100) ^ nat total_months \<noteq> 1 \<longrightarrow>
      calculate_emi princ annual_rate total_months =
        Inr (princ * (annual_rate / 12 / 100) * (1 + annual_rate / 12 / 100) ^ nat total_months /
             ((1 + annual_rate / 12 / 100) ^ nat total_months - 1))) \<and>
   (\<exists>e. calculate_emi 500000 8 120 = Inr e \<and> \<bar>e - 606638 / 100\<bar> \<le> 1 / 100)"
proof -
  have "\<exists>e. calculate_emi 500000 8 120 = Inr e \<and> \<bar>e - 606638 / 100\<bar> \<le> 1 / 100"
    using emi_500000_8_120_bounds unfolding emi_500000_8_120_value by (intro exI conjI) (rule refl, linarith)
  then show ?thesis by (simp add: calculate_emi_def Let_def)
qed

text \<open>
  The value is not within 0.01 of 6067.97.
\<close>

theorem emi_scenario_counterexample:
  "\<not> (\<exists>e. calculate_emi 500000 8 120 = Inr e \<and> \<bar>e - 606797 / 100\<bar> \<le> 1 / 100)"
  using emi_500000_8_120_bounds unfolding emi_500000_8_120_value by auto

theorem emi_formula_scenario_witness:
  "calculate_emi 500000 8 120 =
     Inr (500000 * (8 / 12 / 100) * (1 + 8 / 12 / 100) ^ nat 120 / ((1 + 8 / 12 / 100) ^ nat 120 - 1)) \<and>
   (\<exists>e. calculate_emi 500000 8 120 = Inr e \<and> \<bar>e - 606638 / 100\<bar> \<le> 1 / 100)"
proof -
  have n: "(0::int) < 120" by simp
  have r: "(8::real) / 12 / 100 \<noteq> 0" by simp
  have "(1 + 8 / 12 / 100 :: real) ^ 120 \<noteq> 1" using growth_120 by simp
  then have g: "(1 + 8 / 12 / 100 :: real) ^ nat 120 \<noteq> 1" by simp
  show ?thesis
    using emi_formula_scenario [of 120 8 500000] n r g by blast
qed

section \<open>The dates of the rows\<close>

text \<open>
  C9, as amended. When \<open>pd.date_range\<close> returns, the \<open>Date\<close> of row \<open>i\<close> (counted
  from 1) is the first day of a month: of the month \<open>i - 1\<close> months after the month of
  the start date when the start date is itself a first of the month, and of the month
  \<open>i\<close> months after it otherwise (the range starts at the first month start that is not
  before the start date). When the call raises, the \<open>Date\<close> of every row is \<open>None\<close>.
\<close>

theorem row_dates:
  "(\<forall>k < length (generate_schedule raises princ annual_rate total_months start_date emi).
      Date (generate_schedule raises princ annual_rate total_months start_date emi ! k) =
        (if raises start_date (nat total_months) then None
         else Some (month_start start_date k))) \<and>
   (\<forall>k. month_start start_date k =
      \<lparr>year = (year start_date * 12 + (month start_date - 1) +
                (if day start_date = 1 then 0 else 1) + int k) div 12,
       month = (year start_date * 12 + (month start_date - 1) +
                (if day start_date = 1 then 0 else 1) + int k) mod 12 + 1,
       day = 1\<rparr>)"
  using schedule_date_field by (simp add: month_start_def Let_def)

text \<open>
  For the start date 2024-01-15 the first row is dated 2024-02-01: a month start of the
  month after the start date's, not the start date advanced by no month.
\<close>

theorem row_dates_counterexample:
  "Date (generate_schedule (\<lambda>d n. False) 1000 12 3 \<lparr>year = 2024, month = 1, day = 15\<rparr> 2000 ! 0) =
     Some \<lparr>year = 2024, month = 2, day = 1\<rparr> \<and>
   Date (generate_schedule (\<lambda>d n. False) 1000 12 3 \<lparr>year = 2024, month = 1, day = 15\<rparr> 2000 ! 0) \<noteq>
     Some \<lparr>year = 2024, month = 1, day = 1\<rparr>"
  by (simp add: schedule_eval)

theorem row_dates_witness:
  "Date (generate_schedule (\<lambda>d n. False) 100 0 3 \<lparr>year = 2024, month = 12, day = 1\<rparr> 50 ! 1) =
     Some \<lparr>year = 2025, month = 1, day = 1\<rparr> \<and>
   Date (generate_schedule (\<lambda>d n. False) 100 0 3 \<lparr>year = 2024, month = 1, day = 15\<rparr> 50 ! 1) =
     Some \<lparr>year = 2024, month = 3, day = 1\<rparr> \<and>
   Date (generate_schedule (\<lambda>d n. True) 100 0 3 \<lparr>year = 2024, month = 12, day = 1\<rparr> 50 ! 1) = None"
proof -
  have n: "(0::int) < 3" and P: "(0::real) < 100" by simp_all
  have k: "1 < length (generate_schedule raises 100 0 3 d 50)" for raises d
    using zero_rate_rows(1) [OF n P, of raises d 50] by simp
  note a = row_dates [of "\<lambda>d n. False" 100 0 3 "\<lparr>year = 2024, month = 12, day = 1\<rparr>" 50,
      THEN conjunct1, rule_format, OF k]
  note b = row_dates [of "\<lambda>d n. False" 100 0 3 "\<lparr>year = 2024, month = 1, day = 15\<rparr>" 50,
      THEN conjunct1, rule_format, OF k]
  note c = row_dates [of "\<lambda>d n. True" 100 0 3 "\<lparr>year = 2024, month = 12, day = 1\<rparr>" 50,
      THEN conjunct1, rule_format, OF k]
  show ?thesis using a b c by (simp add: month_start_def)
qed

section \<open>Shape of the table\<close>

text \<open>
  C5. For \<open>total_months > 0\<close>, \<open>principal > 0\<close> and every payment amount, the
  values of \<open>Month #\<close> are 1, 2, 3, ... with no gap and the table has at least one and at
  most \<open>total_months\<close> rows. The loop stops as soon as the running balance is \<open>\<le> 0\<close>
  after a period: the balance after each row but the last is positive (row \<open>k + 1\<close> opens
  with the balance after \<open>k\<close> periods), and a table with fewer than \<open>total_months\<close> rows
  ends with a running balance \<open>\<le> 0\<close>.
\<close>

theorem schedule_shape:
  assumes "0 < total_months" and "0 < princ"
  shows "(\<forall>k < length (generate_schedule raises princ annual_rate total_months start_date emi).
            Month_No (generate_schedule raises princ annual_rate total_months start_date emi ! k)
              = int k + 1 \<and>
            Opening_Balance (generate_schedule raises princ annual_rate total_months start_date emi ! k)
              = py_round2 (balance_after princ (annual_rate / 12 / 100) (nat total_months) emi k)) \<and>
         1 \<le> length (generate_schedule raises princ annual_rate total_months start_date emi) \<and>
         int (length (generate_schedule raises princ annual_rate total_months start_date emi))
           \<le> total_months \<and>
         (\<forall>k. 0 < k \<and>
              k < length (generate_schedule raises princ annual_rate total_months start_date emi) \<longrightarrow>
              0 < balance_after princ (annual_rate / 12 / 100) (nat total_months) emi k) \<and>
         (int (length (generate_schedule raises princ annual_rate total_months start_date emi))
            < total_months \<longrightarrow>
          balance_after princ (annual_rate / 12 / 100) (nat total_months) emi
            (length (generate_schedule raises princ annual_rate total_months start_date emi)) \<le> 0) \<and>
         snd (run_schedule raises princ annual_rate total_months start_date emi) =
           balance_after princ (annual_rate / 12 / 100) (nat total_months) emi
             (length (generate_schedule raises princ annual_rate total_months start_date emi))"
proof -
  let ?r = "annual_rate / 12 / 100"
  let ?n = "nat total_months"
  let ?ds = "schedule_dates raises start_date ?n"
  let ?rs = "rows_from princ ?r ?n ?ds emi 0 princ"
  let ?B = "balance_after princ ?r ?n emi"
  have rows: "generate_schedule raises princ annual_rate total_months start_date emi = ?rs"
    using assms by (rule generate_schedule_rows)
  have n: "0 < ?n" using assms(1) by simp
  have fin: "snd (run_schedule raises princ annual_rate total_months start_date emi) = ?B (length ?rs)"
    unfolding run_schedule_balance balance_after_def by (rule balance_from_funpow)
  have 1: "\<forall>k < length ?rs. Month_No (?rs ! k) = int k + 1 \<and> Opening_Balance (?rs ! k) = py_round2 (?B k)"
    by (simp add: rows_from_month rows_from_opening balance_after_def)
  have 2: "1 \<le> length ?rs"
    using rows_from_nonempty [OF n, of princ ?r ?ds emi princ]
    by (cases ?rs) simp_all
  have 3: "int (length ?rs) \<le> total_months"
    using rows_from_length [of princ ?r ?n ?ds emi 0 princ] assms(1)
    by linarith
  have 4: "\<forall>k. 0 < k \<and> k < length ?rs \<longrightarrow> 0 < ?B k"
    unfolding balance_after_def using rows_from_positive_between by blast
  have 5: "int (length ?rs) < total_months \<longrightarrow> ?B (length ?rs) \<le> 0"
  proof
    assume "int (length ?rs) < total_months"
    then have "0 + length ?rs < ?n" by linarith
    then have "balance_from princ ?r ?n ?ds emi 0 princ \<le> 0"
      by (rule rows_from_short)
    then show "?B (length ?rs) \<le> 0"
      unfolding balance_after_def by (simp only: balance_from_funpow)
  qed
  show ?thesis unfolding rows using 1 2 3 4 5 fin by blast
qed

theorem schedule_shape_witness:
  "length (generate_schedule (\<lambda>d n. False) 1000 12 5 \<lparr>year = 2024, month = 1, day = 15\<rparr> 600) = 2 \<and>
   Month_No (generate_schedule (\<lambda>d n. False) 1000 12 5 \<lparr>year = 2024, month = 1, day = 15\<rparr> 600 ! 0) = 1 \<and>
   Month_No (generate_schedule (\<lambda>d n. False) 1000 12 5 \<lparr>year = 2024, month = 1, day = 15\<rparr> 600 ! 1) = 2 \<and>
   Opening_Balance (generate_schedule (\<lambda>d n. False) 1000 12 5 \<lparr>year = 2024, month = 1, day = 15\<rparr> 600 ! 1) =
     py_round2 (balance_after 1000 (12 / 12 / 100) (nat 5) 600 1) \<and>
   0 < balance_after 1000 (12 / 12 / 100) (nat 5) 600 1 \<and>
   balance_after 1000 (12 / 12 / 100) (nat 5) 600 2 \<le> 0 \<and>
   snd (run_schedule (\<lambda>d n. False) 1000 12 5 \<lparr>year = 2024, month = 1, day = 15\<rparr> 600) =
     balance_after 1000 (12 / 12 / 100) (nat 5) 600 2"
proof -
  let ?rows = "generate_schedule (\<lambda>d n. False) 1000 12 5 \<lparr>year = 2024, month = 1, day = 15\<rparr> 600"
  have len: "length ?rows = 2" by (simp add: sched_1000_12_5_600)
  have n: "(0::int) < 5" and P: "(0::real) < 1000" by simp_all
  note th = schedule_shape [OF n P, of "\<lambda>d n. False" 12 "\<lparr>year = 2024, month = 1, day = 15\<rparr>" 600,
      unfolded len]
  have k0: "(0::nat) < 2" and k1: "(1::nat) < 2" and k1': "(0::nat) < 1 \<and> (1::nat) < 2"
    and short: "int 2 < 5" by simp_all
  note a0 = th [THEN conjunct1, rule_format, OF k0]
  note a1 = th [THEN conjunct1, rule_format, OF k1]
  note pos = th [THEN conjunct2, THEN conjunct2, THEN conjunct2, THEN conjunct1, rule_format, OF k1']
  note stop = th [THEN conjunct2, THEN conjunct2, THEN conjunct2, THEN conjunct2, THEN conjunct1,
      rule_format, OF short]
  note fin = th [THEN conjunct2, THEN conjunct2, THEN conjunct2, THEN conjunct2, THEN conjunct2]
  show ?thesis using len a0 a1 pos stop fin by simp
qed

section \<open>Loans without interest\<close>

text \<open>
  C4, as amended. For every principal and every \<open>total_months > 0\<close> with an annual rate
  of 0, \<open>calculate_emi\<close> returns \<open>principal / total_months\<close>, and in the table of
  \<open>generate_schedule\<close> every row has the interest component 0 and every row but the last
  records \<open>principal / total_months\<close> rounded to two decimals: a whole number of cents
  within half a cent of it. The last row is excepted only by clamping: it records the
  same rounding, or its principal component is the balance it opens with and its closing
  balance is 0. In particular for a principal of 120000 over 12 months the payment is
  10000 and the table has 12 rows, each with principal component 10000 and interest
  component 0.
\<close>

theorem zero_rate_schedule:
  "(0 < total_months \<longrightarrow>
      calculate_emi princ 0 total_months = Inr (princ / of_int total_months)) \<and>
   (\<forall>k < length (generate_schedule raises princ 0 total_months start_date emi).
      Interest_Component (generate_schedule raises princ 0 total_months start_date emi ! k) = 0 \<and>
      ((\<bar>Principal_Component (generate_schedule raises princ 0 total_months start_date emi ! k)
           - princ / of_int total_months\<bar> \<le> 1 / 200 \<and>
        (\<exists>c::int. Principal_Component (generate_schedule raises princ 0 total_months start_date emi ! k)
           = of_int c / 100)) \<or>
       (Principal_Component (generate_schedule raises princ 0 total_months start_date emi ! k) =
          Opening_Balance (generate_schedule raises princ 0 total_months start_date emi ! k) \<and>
        Closing_Balance (generate_schedule raises princ 0 total_months start_date emi ! k) = 0))) \<and>
   (\<forall>k. Suc k < length (generate_schedule raises princ 0 total_months start_date emi) \<longrightarrow>
      \<bar>Principal_Component (generate_schedule raises princ 0 total_months start_date emi ! k)
         - princ / of_int total_months\<bar> \<le> 1 / 200 \<and>
      (\<exists>c::int. Principal_Component (generate_schedule raises princ 0 total_months start_date emi ! k)
         = of_int c / 100)) \<and>
   calculate_emi 120000 0 12 = Inr 10000 \<and>
   length (generate_schedule raises 120000 0 12 start_date 10000) = 12 \<and>
   (\<forall>k < 12.
      Principal_Component (generate_schedule raises 120000 0 12 start_date 10000 ! k) = 10000 \<and>
      Interest_Component (generate_schedule raises 120000 0 12 start_date 10000 ! k) = 0)"
proof (intro conjI)
  let ?gs = "generate_schedule raises princ 0 total_months start_date emi"
  let ?x = "princ / of_int total_months"
  note near = py_round2_nearest_cent [of ?x]
  show "0 < total_months \<longrightarrow>
      calculate_emi princ 0 total_months = Inr (princ / of_int total_months)"
    by (simp add: calculate_emi_def)
  show "\<forall>k < length ?gs.
      Interest_Component (?gs ! k) = 0 \<and>
      ((\<bar>Principal_Component (?gs ! k) - ?x\<bar> \<le> 1 / 200 \<and>
        (\<exists>c::int. Principal_Component (?gs ! k) = of_int c / 100)) \<or>
       (Principal_Component (?gs ! k) = Opening_Balance (?gs ! k) \<and>
        Closing_Balance (?gs ! k) = 0))"
  proof (intro allI impI)
    fix k assume "k < length ?gs"
    then have "Interest_Component (?gs ! k) = 0 \<and>
      (Principal_Component (?gs ! k) = py_round2 ?x \<or>
       (Principal_Component (?gs ! k) = Opening_Balance (?gs ! k) \<and> Closing_Balance (?gs ! k) = 0))"
      by (rule flat_schedule_rows(1) [OF order_refl])
    then show "Interest_Component (?gs ! k) = 0 \<and>
      ((\<bar>Principal_Component (?gs ! k) - ?x\<bar> \<le> 1 / 200 \<and>
        (\<exists>c::int. Principal_Component (?gs ! k) = of_int c / 100)) \<or>
       (Principal_Component (?gs ! k) = Opening_Balance (?gs ! k) \<and>
        Closing_Balance (?gs ! k) = 0))"
      using near by metis
  qed
  show "\<forall>k. Suc k < length ?gs \<longrightarrow>
      \<bar>Principal_Component (?gs ! k) - ?x\<bar> \<le> 1 / 200 \<and>
      (\<exists>c::int. Principal_Component (?gs ! k) = of_int c / 100)"
  proof (intro allI impI)
    fix k assume "Suc k < length ?gs"
    then have "Principal_Component (?gs ! k) = py_round2 ?x"
      by (rule flat_schedule_rows(2) [OF order_refl])
    then show "\<bar>Principal_Component (?gs ! k) - ?x\<bar> \<le> 1 / 200 \<and>
      (\<exists>c::int. Principal_Component (?gs ! k) = of_int c / 100)"
      using near by simp
  qed
  show "calculate_emi 120000 0 12 = Inr 10000" by (simp add: calculate_emi_def)
  have g: "(0::int) < 12" "(0::real) < 120000" by simp_all
  have r: "py_round2 (120000 / of_int 12) = 10000" by (simp add: py_round2_def)
  have n: "nat 12 = 12" by simp
  show "length (generate_schedule raises 120000 0 12 start_date 10000) = 12"
    using zero_rate_rows(1) [OF g] by (simp only: n)
  show "\<forall>k < 12.
      Principal_Component (generate_schedule raises 120000 0 12 start_date 10000 ! k) = 10000 \<and>
      Interest_Component (generate_schedule raises 120000 0 12 start_date 10000 ! k) = 0"
    using zero_rate_rows(2,3) [OF g] unfolding n r by blast
qed

text \<open>
  The recorded principal component is the rounded amount, not \<open>principal / total_months\<close>
  itself: for a principal of 100 over 3 months the rows record 33.33.
\<close>

theorem zero_rate_counterexample:
  "Principal_Component
     (generate_schedule (\<lambda>d n. False) 100 0 3 \<lparr>year = 2024, month = 1, day = 1\<rparr> (100 / 3) ! 0)
   \<noteq> 100 / 3"
  by (simp add: sched_100_0_3)

theorem zero_rate_schedule_witness:
  "calculate_emi 100 0 3 = Inr (100 / of_int 3) \<and>
   Interest_Component
     (generate_schedule (\<lambda>d n. False) 100 0 3 \<lparr>year = 2024, month = 1, day = 1\<rparr> (100 / 3) ! 2) = 0 \<and>
   \<bar>Principal_Component
      (generate_schedule (\<lambda>d n. False) 100 0 3 \<lparr>year = 2024, month = 1, day = 1\<rparr> (100 / 3) ! 1)
      - 100 / of_int 3\<bar> \<le> 1 / 200 \<and>
   (\<exists>c::int. Principal_Component
      (generate_schedule (\<lambda>d n. False) 100 0 3 \<lparr>year = 2024, month = 1, day = 1\<rparr> (100 / 3) ! 1)
      = of_int c / 100) \<and>
   Principal_Component
     (generate_schedule (\<lambda>d n. False) 120000 0 12 \<lparr>year = 2024, month = 1, day = 1\<rparr> 10000 ! 11) = 10000 \<and>
   Interest_Component
     (generate_schedule (\<lambda>d n. False) 120000 0 12 \<lparr>year = 2024, month = 1, day = 1\<rparr> 10000 ! 11) = 0"
proof -
  let ?rows = "generate_schedule (\<lambda>d n. False) 100 0 3 \<lparr>year = 2024, month = 1, day = 1\<rparr> (100 / 3)"
  note th = zero_rate_schedule [of 3 100 "\<lambda>d n. False" "\<lparr>year = 2024, month = 1, day = 1\<rparr>" "100 / 3"]
  have len: "length ?rows = 3" by (simp add: sched_100_0_3)
  have n: "(0::int) < 3" by simp
  have k2: "2 < length ?rows" and k1: "Suc 1 < length ?rows" by (simp_all add: len)
  have k12: "(11::nat) < 12" by simp
  note c1 = th [THEN conjunct1, rule_format, OF n]
  note c2 = th [THEN conjunct2, THEN conjunct1, rule_format, OF k2, THEN conjunct1]
  note c3 = th [THEN conjunct2, THEN conjunct2, THEN conjunct1, rule_format, OF k1]
  note c6 = th [THEN conjunct2, THEN conjunct2, THEN conjunct2, THEN conjunct2, THEN conjunct2,
      rule_format, OF k12]
  show ?thesis
    by (intro conjI) (rule c1 c2 c3 [THEN conjunct1] c3 [THEN conjunct2]
        c6 [THEN conjunct1] c6 [THEN conjunct2])+
qed

section \<open>Negative rates\<close>




section \<open>Repayment of the principal\<close>




end
